theory Spec2Isabelle
  imports Complex_Main
begin

section \<open>The animation system of Slate (src/lib/animationsystem.cpp)\<close>

text \<open>
  The class \<open>AnimationSystem\<close> keeps a vector of pointers to \<open>Animation\<close> objects, the
  index of the current animation, one playback object and a counter for generated names.
  The embedding follows the source member by member. A pointer is an address; the
  objects live in a store, so that two pointers are compared by address
  (\<open>QVector::indexOf\<close>) and read through the store (\<open>animation->name()\<close>). A nullable
  pointer is an \<open>option\<close>. The C++ \<open>int\<close> is modelled by \<open>int\<close>: the code adds or
  subtracts one to an index or to the counter of created animations, which stay far
  from the limits of a 32-bit integer unless some \<open>2^31\<close> animations are created.
  Signals are recorded in the order of emission; no slot is connected, so no observer
  calls back into the object during an emission. \<open>qWarning\<close> messages are recorded
  apart from the signals; the debug output of \<open>qCDebug\<close> is not recorded.
\<close>

subsection \<open>Data\<close>

type_synonym ptr = nat

record QSize =
  width :: int
  height :: int

text \<open>
  Modelled from the spec: the class \<open>Animation\<close> (animation.h is not among the sources):
  a named record with FPS, frame count, frame origin and frame size, whose setters store
  their argument. \<open>parented\<close> tells whether the object's \<open>QObject\<close> parent is the
  animation system (\<open>setParent(this)\<close>) or null.
\<close>

record Animation =
  name :: string
  fps :: int
  frameCount :: int
  frameX :: int
  frameY :: int
  frameWidth :: int
  frameHeight :: int
  parented :: bool

text \<open>
  Modelled from the spec: the object that \<open>new Animation\<close> constructs ("constructible
  with default fields"). The code of this file sets every field it reads afterwards.
\<close>

definition Animation_default :: Animation where
  "Animation_default =
     \<lparr>name = [], fps = 0, frameCount = 0, frameX = 0, frameY = 0,
      frameWidth = 0, frameHeight = 0, parented = False\<rparr>"

text \<open>
  Modelled from the spec: the class \<open>AnimationPlayback\<close> (animationplayback.h is not among
  the sources): the bound animation, the scale, and the loop and playing flags. The
  scale is a \<open>double\<close> that this file only stores.
\<close>

record AnimationPlayback =
  animation :: "ptr option"
  scale :: real
  loop :: bool
  playing :: bool

text \<open>
  Modelled from the spec: the initial state of the playback, bound to no animation and
  not playing.
\<close>

definition AnimationPlayback_init :: AnimationPlayback where
  "AnimationPlayback_init = \<lparr>animation = None, scale = 1, loop = True, playing = False\<rparr>"

text \<open>
  Modelled from the spec: \<open>AnimationPlayback::setAnimation\<close> retargets the playback
  and leaves its other fields alone.
\<close>

definition setAnimation :: "ptr option \<Rightarrow> AnimationPlayback \<Rightarrow> AnimationPlayback" where
  "setAnimation a p = p\<lparr>animation := a\<rparr>"

text \<open>
  Modelled from the spec: \<open>AnimationPlayback::reset\<close> puts the playback back into its
  initial state.
\<close>

definition AnimationPlayback_reset :: "AnimationPlayback \<Rightarrow> AnimationPlayback" where
  "AnimationPlayback_reset p = AnimationPlayback_init"

datatype signal =
    preAnimationAdded int
  | postAnimationAdded int
  | preAnimationRemoved int
  | postAnimationRemoved int
  | animationCountChanged
  | currentAnimationIndexChanged

datatype warning =
    InvalidIndex int
  | AlreadyExists string
  | AlreadyExistsAt string int
  | DoesNotExist string

text \<open>
  What stops the program: \<open>QVector::at\<close>, \<open>QVector::takeAt\<close> with an index outside
  \<open>[0, size)\<close> (an assertion failure in a debug build of Qt, undefined otherwise), and
  the dereference of the end iterator.
\<close>

datatype error = IndexOutOfRange | EndIteratorDereferenced

record AnimationSystem =
  mAnimations :: "ptr list"
  mCurrentAnimationIndex :: int
  mCurrentAnimationPlayback :: AnimationPlayback
  mAnimationsCreated :: int
  heap :: "ptr \<Rightarrow> Animation"
  nextFree :: ptr
  emitted :: "signal list"
  warnings :: "warning list"

text \<open>
  Modelled from the spec: the initial values of \<open>mCurrentAnimationIndex\<close> (\<open>-1\<close>, no
  current animation) and of \<open>mAnimationsCreated\<close> (\<open>0\<close>), member initialisers of
  animationsystem.h, which is not among the sources. The rest is the constructor: an
  empty vector and a new playback.
\<close>

definition AnimationSystem_init :: AnimationSystem where
  "AnimationSystem_init =
     \<lparr>mAnimations = [], mCurrentAnimationIndex = - 1,
      mCurrentAnimationPlayback = AnimationPlayback_init, mAnimationsCreated = 0,
      heap = (\<lambda>a. Animation_default), nextFree = 1, emitted = [], warnings = []\<rparr>"

subsection \<open>Effects\<close>

definition emit :: "signal \<Rightarrow> AnimationSystem \<Rightarrow> AnimationSystem" where
  "emit sg s = s\<lparr>emitted := emitted s @ [sg]\<rparr>"

definition qWarning :: "warning \<Rightarrow> AnimationSystem \<Rightarrow> AnimationSystem" where
  "qWarning w s = s\<lparr>warnings := warnings s @ [w]\<rparr>"

text \<open>
  \<open>new Animation(parent)\<close>: the next free address, holding a default object. Every
  address below \<open>nextFree\<close> is taken, so \<open>new\<close> never returns the address of a live
  object.
\<close>

definition new_Animation :: "bool \<Rightarrow> AnimationSystem \<Rightarrow> ptr \<times> AnimationSystem" where
  "new_Animation par s =
     (nextFree s,
      s\<lparr>heap := (heap s)(nextFree s := Animation_default\<lparr>parented := par\<rparr>),
        nextFree := Suc (nextFree s)\<rparr>)"

text \<open>
  An \<open>Animation\<close> that the caller has constructed and passes by pointer is a live object
  of the same store: its address is taken too, and \<open>new\<close> will not return it later.
\<close>

definition caller_object :: "ptr \<Rightarrow> AnimationSystem \<Rightarrow> AnimationSystem" where
  "caller_object a s = s\<lparr>nextFree := max (nextFree s) (Suc a)\<rparr>"

definition modify :: "ptr \<Rightarrow> (Animation \<Rightarrow> Animation) \<Rightarrow> AnimationSystem \<Rightarrow> AnimationSystem" where
  "modify a f s = s\<lparr>heap := (heap s)(a := f (heap s a))\<rparr>"

subsection \<open>Qt and standard library functions\<close>

definition QVector_at :: "ptr list \<Rightarrow> int \<Rightarrow> error + ptr" where
  "QVector_at v i = (if 0 \<le> i \<and> i < int (length v) then Inr (v ! nat i) else Inl IndexOutOfRange)"

text \<open>\<open>std::find_if\<close>: the position of the first match, the length (the end iterator) if none.\<close>

primrec find_if :: "('a \<Rightarrow> bool) \<Rightarrow> 'a list \<Rightarrow> nat" where
  "find_if P [] = 0"
| "find_if P (x # xs) = (if P x then 0 else Suc (find_if P xs))"

definition QVector_indexOf :: "ptr list \<Rightarrow> ptr \<Rightarrow> int" where
  "QVector_indexOf v a =
     (let i = find_if (\<lambda>x. x = a) v in if i = length v then - 1 else int i)"

definition QVector_insert :: "nat \<Rightarrow> ptr \<Rightarrow> ptr list \<Rightarrow> ptr list" where
  "QVector_insert i a v = take i v @ a # drop i v"

definition QVector_erase :: "nat \<Rightarrow> ptr list \<Rightarrow> ptr list" where
  "QVector_erase i v = take i v @ drop (Suc i) v"

text \<open>\<open>QString::arg(int)\<close>: the decimal digits of the number.\<close>

fun digits :: "nat \<Rightarrow> string" where
  "digits n =
     (if n < 10 then [''0123456789'' ! n]
      else digits (n div 10) @ [''0123456789'' ! (n mod 10)])"

declare digits.simps [simp del]

definition number :: "int \<Rightarrow> string" where
  "number i = (if i < 0 then CHR ''-'' # digits (nat (- i)) else digits (nat i))"

subsection \<open>Selection\<close>

definition currentAnimationIndex :: "AnimationSystem \<Rightarrow> int" where
  "currentAnimationIndex s = mCurrentAnimationIndex s"

definition isValidIndexOrWarn :: "int \<Rightarrow> AnimationSystem \<Rightarrow> bool \<times> AnimationSystem" where
  "isValidIndexOrWarn index s =
     (if index < 0 \<or> index > int (length (mAnimations s))
      then (False, qWarning (InvalidIndex index) s)
      else (True, s))"

definition currentAnimation :: "AnimationSystem \<Rightarrow> error + ptr option" where
  "currentAnimation s =
     (if mCurrentAnimationIndex s = - 1 then Inr None
      else case QVector_at (mAnimations s) (mCurrentAnimationIndex s) of
             Inl e \<Rightarrow> Inl e
           | Inr a \<Rightarrow> Inr (Some a))"

definition setCurrentAnimationIndex :: "int \<Rightarrow> AnimationSystem \<Rightarrow> error + AnimationSystem" where
  "setCurrentAnimationIndex index s =
     (case isValidIndexOrWarn index s of
        (False, s1) \<Rightarrow> Inr s1
      | (True, s1) \<Rightarrow>
          if index = mCurrentAnimationIndex s1 then Inr s1
          else
            let s2 = s1\<lparr>mCurrentAnimationIndex := index\<rparr> in
            (case currentAnimation s2 of
               Inl e \<Rightarrow> Inl e
             | Inr a \<Rightarrow>
                 Inr (emit currentAnimationIndexChanged
                       (s2\<lparr>mCurrentAnimationPlayback :=
                             setAnimation a (mCurrentAnimationPlayback s2)\<rparr>))))"

definition currentAnimationPlayback :: "AnimationSystem \<Rightarrow> AnimationPlayback" where
  "currentAnimationPlayback s = mCurrentAnimationPlayback s"

subsection \<open>Lookup\<close>

definition findAnimationWithName :: "string \<Rightarrow> AnimationSystem \<Rightarrow> nat" where
  "findAnimationWithName nm s = find_if (\<lambda>a. name (heap s a) = nm) (mAnimations s)"

definition containsAnimation :: "string \<Rightarrow> AnimationSystem \<Rightarrow> bool" where
  "containsAnimation nm s = (findAnimationWithName nm s \<noteq> length (mAnimations s))"

definition indexOfAnimation :: "string \<Rightarrow> AnimationSystem \<Rightarrow> int" where
  "indexOfAnimation nm s =
     (let animationIt = findAnimationWithName nm s in
      if animationIt = length (mAnimations s) then - 1 else int animationIt)"

definition animationCount :: "AnimationSystem \<Rightarrow> int" where
  "animationCount s = int (length (mAnimations s))"

definition animationAt :: "int \<Rightarrow> AnimationSystem \<Rightarrow> error + (ptr option \<times> AnimationSystem)" where
  "animationAt index s =
     (case isValidIndexOrWarn index s of
        (False, s1) \<Rightarrow> Inr (None, s1)
      | (True, s1) \<Rightarrow>
          (case QVector_at (mAnimations s1) index of
             Inl e \<Rightarrow> Inl e
           | Inr a \<Rightarrow> Inr (Some a, s1)))"

definition animationAtNameOrWarn :: "string \<Rightarrow> AnimationSystem \<Rightarrow> error + (ptr \<times> AnimationSystem)" where
  "animationAtNameOrWarn nm s =
     (let animationIt = findAnimationWithName nm s in
      if animationIt = length (mAnimations s)
      then Inl EndIteratorDereferenced
      else Inr (mAnimations s ! animationIt, s))"

subsection \<open>Generated names\<close>

definition peekNextGeneratedName :: "AnimationSystem \<Rightarrow> string" where
  "peekNextGeneratedName s = ''Animation '' @ number (mAnimationsCreated s + 1)"

definition takeNextGeneratedName :: "AnimationSystem \<Rightarrow> string \<times> AnimationSystem" where
  "takeNextGeneratedName s =
     (peekNextGeneratedName s, s\<lparr>mAnimationsCreated := mAnimationsCreated s + 1\<rparr>)"

subsection \<open>Structural changes\<close>

text \<open>
  The integer division of C++ truncates towards zero. The only divisor in this file is
  the frame count that \<open>addNewAnimation\<close> has just set to 4 or 1.
\<close>

definition cpp_div :: "int \<Rightarrow> int \<Rightarrow> int" where
  "cpp_div a b = (if (a < 0) = (b < 0) then \<bar>a\<bar> div \<bar>b\<bar> else - (\<bar>a\<bar> div \<bar>b\<bar>))"

text \<open>
  \<open>addNewAnimation\<close> returns the generated name, or the empty \<open>QString()\<close> when an
  animation of that name exists. \<open>generate\<close> is the run of setter calls on the new
  object, in the order of the source.
\<close>

definition generate :: "string \<Rightarrow> QSize \<Rightarrow> Animation \<Rightarrow> Animation" where
  "generate nm canvasSize x0 =
     (let x1 = x0\<lparr>name := nm\<rparr>;
          x2 = x1\<lparr>fps := 4\<rparr>;
          x3 = x2\<lparr>frameCount := (if width canvasSize \<ge> 8 then 4 else 1)\<rparr>;
          x4 = x3\<lparr>frameX := 0\<rparr>;
          x5 = x4\<lparr>frameY := 0\<rparr>;
          x6 = x5\<lparr>frameWidth := cpp_div (width canvasSize) (frameCount x5)\<rparr>
      in x6\<lparr>frameHeight := height canvasSize\<rparr>)"

definition addNewAnimation :: "QSize \<Rightarrow> AnimationSystem \<Rightarrow> error + (string \<times> AnimationSystem)" where
  "addNewAnimation canvasSize s =
     (let nm = peekNextGeneratedName s;
          existingAnimationIt = findAnimationWithName nm s in
      if existingAnimationIt \<noteq> length (mAnimations s)
      then Inr ([], qWarning (AlreadyExists nm) s)
      else
        let addIndex = int (length (mAnimations s)) - 1;
            s1 = emit (preAnimationAdded addIndex) s;
            s2 = s1\<lparr>mAnimationsCreated := mAnimationsCreated s1 + 1\<rparr>;
            (a, s3) = new_Animation False s2;
            s4 = modify a (generate nm canvasSize) s3;
            s5 = s4\<lparr>mAnimations := mAnimations s4 @ [a]\<rparr>
        in case (if length (mAnimations s5) = 1 then setCurrentAnimationIndex 0 s5
                 else Inr s5) of
             Inl e \<Rightarrow> Inl e
           | Inr s6 \<Rightarrow> Inr (nm, emit (postAnimationAdded addIndex) s6))"

definition addAnimation :: "ptr \<Rightarrow> int \<Rightarrow> AnimationSystem \<Rightarrow> error + AnimationSystem" where
  "addAnimation a index s =
     (let existingIndex = QVector_indexOf (mAnimations s) a in
      if existingIndex \<noteq> - 1
      then Inr (qWarning (AlreadyExistsAt (name (heap s a)) existingIndex) s)
      else
        case isValidIndexOrWarn index s of
          (False, s1) \<Rightarrow> Inr s1
        | (True, s1) \<Rightarrow>
            let s2 = emit (preAnimationAdded index) s1;
                s3 = modify a (\<lambda>x. x\<lparr>parented := True\<rparr>) s2;
                s4 = s3\<lparr>mAnimations := QVector_insert (nat index) a (mAnimations s3)\<rparr>
            in (case (if length (mAnimations s4) = 1 then setCurrentAnimationIndex 0 s4
                      else if index \<le> mCurrentAnimationIndex s4
                           then setCurrentAnimationIndex (mCurrentAnimationIndex s4 + 1) s4
                           else Inr s4) of
                  Inl e \<Rightarrow> Inl e
                | Inr s5 \<Rightarrow>
                    Inr (emit animationCountChanged (emit (postAnimationAdded index) s5))))"

text \<open>\<open>takeAnimation(const QString &)\<close>, the removal by name.\<close>

definition takeAnimation_name :: "string \<Rightarrow> AnimationSystem \<Rightarrow> error + AnimationSystem" where
  "takeAnimation_name nm s =
     (let animationIt = findAnimationWithName nm s in
      if animationIt = length (mAnimations s)
      then Inr (qWarning (DoesNotExist nm) s)
      else
        let removedIndex = int animationIt;
            s1 = emit (preAnimationRemoved removedIndex) s
        in case (if length (mAnimations s1) = 1 then setCurrentAnimationIndex (- 1) s1
                 else Inr s1) of
             Inl e \<Rightarrow> Inl e
           | Inr s2 \<Rightarrow>
               (case (if removedIndex \<le> mCurrentAnimationIndex s2
                      then setCurrentAnimationIndex (mCurrentAnimationIndex s2 - 1) s2
                      else Inr s2) of
                  Inl e \<Rightarrow> Inl e
                | Inr s3 \<Rightarrow>
                    Inr (emit animationCountChanged
                          (emit (postAnimationRemoved removedIndex)
                            (s3\<lparr>mAnimations := QVector_erase animationIt (mAnimations s3)\<rparr>)))))"

text \<open>\<open>takeAnimation(int)\<close>, the detachment by index; \<open>QVector::takeAt\<close> reads the element first.\<close>

definition takeAnimation_index :: "int \<Rightarrow> AnimationSystem \<Rightarrow> error + (ptr option \<times> AnimationSystem)" where
  "takeAnimation_index index s =
     (case isValidIndexOrWarn index s of
        (False, s1) \<Rightarrow> Inr (None, s1)
      | (True, s1) \<Rightarrow>
          let s2 = emit (preAnimationRemoved index) s1 in
          (case QVector_at (mAnimations s2) index of
             Inl e \<Rightarrow> Inl e
           | Inr a \<Rightarrow>
               let s3 = s2\<lparr>mAnimations := QVector_erase (nat index) (mAnimations s2)\<rparr>;
                   s4 = modify a (\<lambda>x. x\<lparr>parented := False\<rparr>) s3
               in Inr (Some a,
                       emit animationCountChanged (emit (postAnimationRemoved index) s4))))"

subsection \<open>Loading and resetting\<close>

text \<open>
  Modelled from the spec: the JSON object that \<open>read\<close> receives, after the conversions
  the code applies (\<open>toInt\<close>, \<open>toDouble\<close>, \<open>toBool\<close>): either the fields of a
  project older than 0.10.0 (the object has a key \<open>fps\<close>), or the array of animations
  and the playback object. \<open>Animation::read\<close> fills the fields of the new object from
  its JSON object, given here as the record it produces, and \<open>AnimationPlayback::read\<close>
  restores scale, loop and playing.
\<close>

datatype json =
    Legacy int int int int int int real bool
  | Project "Animation list" real bool bool

primrec read_animations :: "Animation list \<Rightarrow> AnimationSystem \<Rightarrow> AnimationSystem" where
  "read_animations [] s = s"
| "read_animations (x # xs) s =
     (let (a, s1) = new_Animation True s;
          s2 = modify a (\<lambda>y. x\<lparr>parented := parented y\<rparr>) s1
      in read_animations xs (s2\<lparr>mAnimations := mAnimations s2 @ [a]\<rparr>))"

fun read :: "json \<Rightarrow> AnimationSystem \<Rightarrow> error + AnimationSystem" where
  "read (Legacy f fc fx fy fw fh sc lp) s =
     (let (a, s1) = new_Animation False s;
          (nm, s2) = takeNextGeneratedName s1;
          s3 = modify a (\<lambda>x. x\<lparr>name := nm, fps := f, frameCount := fc, frameX := fx,
                                 frameY := fy, frameWidth := fw, frameHeight := fh\<rparr>) s2
      in case addAnimation a 0 s3 of
           Inl e \<Rightarrow> Inl e
         | Inr s4 \<Rightarrow>
             Inr (s4\<lparr>mCurrentAnimationPlayback :=
                        (mCurrentAnimationPlayback s4)\<lparr>scale := sc, loop := lp, playing := False\<rparr>\<rparr>))"
| "read (Project xs sc lp pl) s =
     (let s1 = read_animations xs s
      in Inr (s1\<lparr>mCurrentAnimationPlayback :=
                    (mCurrentAnimationPlayback s1)\<lparr>scale := sc, loop := lp, playing := pl\<rparr>\<rparr>))"

definition reset :: "AnimationSystem \<Rightarrow> AnimationSystem" where
  "reset s =
     s\<lparr>mAnimations := [],
       mCurrentAnimationPlayback := AnimationPlayback_reset (mCurrentAnimationPlayback s),
       mAnimationsCreated := 0\<rparr>"

subsection \<open>Sequences of calls\<close>

text \<open>
  The public operations as values, so that a state can be given by the calls that lead
  to it from a new object. \<open>call\<close> keeps the state and drops the value returned;
  \<open>calls\<close> stops at the first call that stops the program. The animation that the
  caller hands to \<open>addAnimation\<close> exists before the call, so its address is taken in
  the store from then on.
\<close>

datatype operation =
    SetCurrentAnimationIndex int
  | CurrentAnimation
  | AddNewAnimation QSize
  | AddAnimation ptr int
  | TakeAnimationNamed string
  | TakeAnimationAt int
  | AnimationAt int
  | Read json
  | Reset

fun call :: "operation \<Rightarrow> AnimationSystem \<Rightarrow> error + AnimationSystem" where
  "call (SetCurrentAnimationIndex i) s = setCurrentAnimationIndex i s"
| "call CurrentAnimation s = map_sum id (\<lambda>a. s) (currentAnimation s)"
| "call (AddNewAnimation c) s = map_sum id snd (addNewAnimation c s)"
| "call (AddAnimation a i) s = addAnimation a i (caller_object a s)"
| "call (TakeAnimationNamed nm) s = takeAnimation_name nm s"
| "call (TakeAnimationAt i) s = map_sum id snd (takeAnimation_index i s)"
| "call (AnimationAt i) s = map_sum id snd (animationAt i s)"
| "call (Read j) s = read j s"
| "call Reset s = Inr (reset s)"

primrec calls :: "operation list \<Rightarrow> AnimationSystem \<Rightarrow> error + AnimationSystem" where
  "calls [] s = Inr s"
| "calls (c # cs) s = (case call c s of Inl e \<Rightarrow> Inl e | Inr s' \<Rightarrow> calls cs s')"

text \<open>What the claims observe of a state: the sequence, the current index, the playback's animation.\<close>

definition snapshot :: "AnimationSystem \<Rightarrow> ptr list \<times> int \<times> ptr option" where
  "snapshot s = (mAnimations s, mCurrentAnimationIndex s, animation (mCurrentAnimationPlayback s))"

definition canvas :: QSize where
  "canvas = \<lparr>width = 8, height = 16\<rparr>"

text \<open>
  Two states used as concrete inputs: a new object after one call of
  \<open>addNewAnimation(QSize(8, 16))\<close>, and after two.
\<close>

definition one_animation :: AnimationSystem where
  "one_animation =
     \<lparr>mAnimations = [1], mCurrentAnimationIndex = 0,
      mCurrentAnimationPlayback =
        \<lparr>animation = Some 1, scale = 1, loop = True, playing = False\<rparr>,
      mAnimationsCreated = 1,
      heap = (\<lambda>a. Animation_default)(1 := generate ''Animation 1'' canvas Animation_default),
      nextFree = 2,
      emitted = [preAnimationAdded (- 1), currentAnimationIndexChanged, postAnimationAdded (- 1)],
      warnings = []\<rparr>"

definition two_animations :: AnimationSystem where
  "two_animations =
     \<lparr>mAnimations = [1, 2], mCurrentAnimationIndex = 0,
      mCurrentAnimationPlayback =
        \<lparr>animation = Some 1, scale = 1, loop = True, playing = False\<rparr>,
      mAnimationsCreated = 2,
      heap = (\<lambda>a. Animation_default)
               (1 := generate ''Animation 1'' canvas Animation_default,
                2 := generate ''Animation 2'' canvas Animation_default),
      nextFree = 3,
      emitted = [preAnimationAdded (- 1), currentAnimationIndexChanged, postAnimationAdded (- 1),
                 preAnimationAdded 0, postAnimationAdded 0],
      warnings = []\<rparr>"

section \<open>Properties\<close>

subsection \<open>Library functions\<close>

lemma find_if_le: "find_if P xs \<le> length xs"
  by (induction xs) simp_all

lemma find_if_end: "(find_if P xs = length xs) = (\<forall>x \<in> set xs. \<not> P x)"
proof (induction xs)
  case Nil
  show ?case by simp
next
  case (Cons x xs)
  show ?case
  proof (cases "P x")
    case True
    then show ?thesis by simp
  next
    case False
    with Cons show ?thesis by simp
  qed
qed

lemma find_if_found: "find_if P xs < length xs \<Longrightarrow> P (xs ! find_if P xs)"
  by (induction xs) (simp_all split: if_splits)

lemma QVector_indexOf_absent: "(QVector_indexOf v a = - 1) = (a \<notin> set v)"
  by (auto simp: QVector_indexOf_def Let_def find_if_end)

subsection \<open>The concrete states are reached from a new object\<close>

lemmas run_defs =
  generate_def addNewAnimation_def Let_def peekNextGeneratedName_def AnimationSystem_init_def
  findAnimationWithName_def number_def digits.simps emit_def new_Animation_def modify_def
  setCurrentAnimationIndex_def isValidIndexOrWarn_def currentAnimation_def QVector_at_def
  takeAnimation_name_def takeAnimation_index_def addAnimation_def QVector_indexOf_def
  QVector_insert_def QVector_erase_def qWarning_def reset_def animationAt_def canvas_def
  snapshot_def setAnimation_def AnimationPlayback_init_def AnimationPlayback_reset_def
  Animation_default_def cpp_div_def animationCount_def caller_object_def

lemma one_animation_reached:
  "calls [AddNewAnimation canvas] AnimationSystem_init = Inr one_animation"
  by (simp add: run_defs one_animation_def)

lemma two_animations_reached:
  "calls [AddNewAnimation canvas, AddNewAnimation canvas] AnimationSystem_init = Inr two_animations"
  by (simp add: run_defs two_animations_def numeral_2_eq_2)

lemma generated_animation:
  "heap one_animation 1 =
     \<lparr>name = ''Animation 1'', fps = 4, frameCount = 4, frameX = 0, frameY = 0,
      frameWidth = 2, frameHeight = 16, parented = False\<rparr>"
  by (simp add: run_defs one_animation_def)

subsection \<open>The setter of the current index\<close>

lemma setCurrentAnimationIndex_invalid:
  "index < 0 \<or> index > int (length (mAnimations s)) \<Longrightarrow>
   setCurrentAnimationIndex index s = Inr (qWarning (InvalidIndex index) s)"
  by (simp add: setCurrentAnimationIndex_def isValidIndexOrWarn_def)

lemma setCurrentAnimationIndex_same:
  "0 \<le> mCurrentAnimationIndex s \<Longrightarrow>
   mCurrentAnimationIndex s \<le> int (length (mAnimations s)) \<Longrightarrow>
   setCurrentAnimationIndex (mCurrentAnimationIndex s) s = Inr s"
  by (simp add: setCurrentAnimationIndex_def isValidIndexOrWarn_def)

lemma setCurrentAnimationIndex_select:
  "0 \<le> index \<Longrightarrow> index < int (length (mAnimations s)) \<Longrightarrow>
   index \<noteq> mCurrentAnimationIndex s \<Longrightarrow>
   setCurrentAnimationIndex index s =
     Inr (emit currentAnimationIndexChanged
           (s\<lparr>mCurrentAnimationIndex := index,
              mCurrentAnimationPlayback :=
                setAnimation (Some (mAnimations s ! nat index)) (mCurrentAnimationPlayback s)\<rparr>))"
  by (simp add: setCurrentAnimationIndex_def isValidIndexOrWarn_def currentAnimation_def
      QVector_at_def Let_def)

text \<open>
  The index equal to the size passes the validation; unless it is the current index
  already, the setter then reads the vector one past its last element.
\<close>

lemma setCurrentAnimationIndex_end:
  "index = int (length (mAnimations s)) \<Longrightarrow> index \<noteq> mCurrentAnimationIndex s \<Longrightarrow>
   setCurrentAnimationIndex index s = Inl IndexOutOfRange"
  by (simp add: setCurrentAnimationIndex_def isValidIndexOrWarn_def currentAnimation_def
      QVector_at_def Let_def)

text \<open>No call of the setter that returns makes the current index \<open>-1\<close>.\<close>

lemma setCurrentAnimationIndex_never_deselects:
  "setCurrentAnimationIndex i s = Inr s' \<Longrightarrow> mCurrentAnimationIndex s' = - 1 \<Longrightarrow>
   mCurrentAnimationIndex s = - 1"
  by (auto simp: setCurrentAnimationIndex_def isValidIndexOrWarn_def qWarning_def emit_def Let_def
      split: if_splits sum.splits)

text \<open>
  Claim C10. For every state, \<open>setCurrentAnimationIndex(-1)\<close> is rejected by
  \<open>isValidIndexOrWarn\<close>: the call returns, and the state it leaves differs from the one
  before only by the warning logged. So the current index, the playback's animation and
  the sequence are unchanged, and no signal is emitted.
\<close>

theorem setCurrentAnimationIndex_minus_one_rejected:
  "setCurrentAnimationIndex (- 1) s = Inr (s\<lparr>warnings := warnings s @ [InvalidIndex (- 1)]\<rparr>) \<and>
   (\<exists>s'. setCurrentAnimationIndex (- 1) s = Inr s' \<and>
      mCurrentAnimationIndex s' = mCurrentAnimationIndex s \<and>
      animation (mCurrentAnimationPlayback s') = animation (mCurrentAnimationPlayback s) \<and>
      mAnimations s' = mAnimations s \<and>
      emitted s' = emitted s)"
  by (simp add: setCurrentAnimationIndex_def isValidIndexOrWarn_def qWarning_def)

text \<open>
  Claim C6, as amended. For every index \<open>i\<close> with \<open>0 \<le> i < size\<close>,
  \<open>setCurrentAnimationIndex(i)\<close> returns, the sequence is as before, the current index
  is \<open>i\<close> and \<open>currentAnimation()\<close> is the element at position \<open>i\<close>. If \<open>i\<close> was
  not the current index before the call, the playback's animation is that element
  afterwards. If \<open>i\<close> was the current index, the setter returns early and the state is
  the one before the call, so the playback's animation is left as it was, whether or not
  it is that element.
\<close>

theorem setCurrentAnimationIndex_binds:
  assumes "0 \<le> i" and "i < int (length (mAnimations s))"
  shows "\<exists>s'. setCurrentAnimationIndex i s = Inr s' \<and>
           mAnimations s' = mAnimations s \<and>
           mCurrentAnimationIndex s' = i \<and>
           currentAnimation s' = Inr (Some (mAnimations s ! nat i)) \<and>
           (if i = mCurrentAnimationIndex s then s' = s
            else animation (mCurrentAnimationPlayback s') = Some (mAnimations s ! nat i))"
proof (cases "i = mCurrentAnimationIndex s")
  case True
  with assms have "setCurrentAnimationIndex i s = Inr s"
    using setCurrentAnimationIndex_same [of s] by simp
  moreover from True assms have "currentAnimation s = Inr (Some (mAnimations s ! nat i))"
    by (auto simp: currentAnimation_def QVector_at_def)
  ultimately show ?thesis using True by simp
next
  case False
  with assms show ?thesis
    by (simp add: setCurrentAnimationIndex_select emit_def currentAnimation_def QVector_at_def
        setAnimation_def)
qed

theorem setCurrentAnimationIndex_binds_witness:
  "(\<exists>s'. setCurrentAnimationIndex 1 two_animations = Inr s' \<and>
      mAnimations s' = [1, 2] \<and>
      mCurrentAnimationIndex s' = 1 \<and>
      currentAnimation s' = Inr (Some 2) \<and>
      animation (mCurrentAnimationPlayback s') = Some 2) \<and>
   setCurrentAnimationIndex 0 two_animations = Inr two_animations \<and>
   currentAnimation two_animations = Inr (Some 1)"
  using setCurrentAnimationIndex_binds [of 1 two_animations]
    setCurrentAnimationIndex_binds [of 0 two_animations]
  by (auto simp: two_animations_def)

text \<open>
  The claim C6 as the spec states it fails in a state that the public operations reach.
  After two calls of \<open>addNewAnimation\<close> the current index is 0 and the playback is
  bound to the first animation (address 1). \<open>takeAnimation(0)\<close> detaches that
  animation and adjusts neither the index nor the playback. Index 0 is then valid, and
  \<open>setCurrentAnimationIndex(0)\<close> returns early: \<open>currentAnimation()\<close> is the animation
  at address 2, the playback's animation is still the detached one at address 1.
\<close>

theorem setCurrentAnimationIndex_stale_playback:
  "map_sum id snapshot
     (calls [AddNewAnimation canvas, AddNewAnimation canvas, TakeAnimationAt 0]
        AnimationSystem_init) = Inr ([2], 0, Some 1) \<and>
   map_sum id snapshot
     (calls [AddNewAnimation canvas, AddNewAnimation canvas, TakeAnimationAt 0,
             SetCurrentAnimationIndex 0] AnimationSystem_init) = Inr ([2], 0, Some 1) \<and>
   map_sum id currentAnimation
     (calls [AddNewAnimation canvas, AddNewAnimation canvas, TakeAnimationAt 0,
             SetCurrentAnimationIndex 0] AnimationSystem_init) = Inr (Inr (Some 2))"
  by (simp add: run_defs)

subsection \<open>Insertion at an index\<close>




text \<open>
  With a current index equal to the size of a collection that is not empty, an
  insertion at or before it stops the program: the setter accepts the index one past
  the new last element and reads the vector there.
\<close>

lemma addAnimation_index_at_size:
  assumes "a \<notin> set (mAnimations s)" and "mAnimations s \<noteq> []"
    and "0 \<le> index" and "index \<le> int (length (mAnimations s))"
    and "mCurrentAnimationIndex s = int (length (mAnimations s))"
  shows "addAnimation a index s = Inl IndexOutOfRange"
proof -
  define s4 where
    "s4 = (modify a (\<lambda>x. x\<lparr>parented := True\<rparr>) (emit (preAnimationAdded index) s))
            \<lparr>mAnimations := QVector_insert (nat index) a (mAnimations s)\<rparr>"
  have len: "int (length (mAnimations s4)) = int (length (mAnimations s)) + 1"
    using assms by (simp add: s4_def QVector_insert_def)
  have cur: "mCurrentAnimationIndex s4 = mCurrentAnimationIndex s"
    by (simp add: s4_def modify_def emit_def)
  have unfold: "addAnimation a index s =
      (case (if length (mAnimations s4) = 1 then setCurrentAnimationIndex 0 s4
             else if index \<le> mCurrentAnimationIndex s4
                  then setCurrentAnimationIndex (mCurrentAnimationIndex s4 + 1) s4
                  else Inr s4) of
         Inl e \<Rightarrow> Inl e
       | Inr s5 \<Rightarrow> Inr (emit animationCountChanged (emit (postAnimationAdded index) s5)))"
    using assms
    by (simp add: addAnimation_def QVector_indexOf_absent isValidIndexOrWarn_def s4_def
        modify_def emit_def Let_def)
  from assms have many: "length (mAnimations s4) \<noteq> 1"
    using len by (cases "mAnimations s") simp_all
  have "setCurrentAnimationIndex (mCurrentAnimationIndex s4 + 1) s4 = Inl IndexOutOfRange"
    using assms len cur by (intro setCurrentAnimationIndex_end) simp_all
  with assms many cur show ?thesis
    by (simp add: unfold)
qed

text \<open>
  The empty collection with a stale current index is reached: two animations, the
  second one selected, then \<open>reset()\<close>. Inserting the animation at address 1 at index
  0 then makes the current index 0.
\<close>

lemma addAnimation_after_reset:
  "map_sum id snapshot
     (calls [AddNewAnimation canvas, AddNewAnimation canvas, SetCurrentAnimationIndex 1, Reset]
        AnimationSystem_init) = Inr ([], 1, None) \<and>
   map_sum id snapshot
     (calls [AddNewAnimation canvas, AddNewAnimation canvas, SetCurrentAnimationIndex 1, Reset,
             AddAnimation 1 0] AnimationSystem_init) = Inr ([1], 0, Some 1)"
  by (simp add: run_defs)


subsection \<open>Removal by name\<close>

text \<open>
  Claim C7. If no animation of the sequence has the name, \<open>takeAnimation(name)\<close> returns
  and changes nothing but the log of warnings: the count, the current index, the
  sequence and the objects are as before, and no signal is emitted.
\<close>

theorem takeAnimation_name_absent:
  assumes "\<forall>a \<in> set (mAnimations s). name (heap s a) \<noteq> nm"
  shows "takeAnimation_name nm s = Inr (s\<lparr>warnings := warnings s @ [DoesNotExist nm]\<rparr>) \<and>
         (\<exists>s'. takeAnimation_name nm s = Inr s' \<and>
            animationCount s' = animationCount s \<and>
            mCurrentAnimationIndex s' = mCurrentAnimationIndex s \<and>
            mAnimations s' = mAnimations s \<and>
            heap s' = heap s \<and>
            emitted s' = emitted s)"
proof -
  from assms have "findAnimationWithName nm s = length (mAnimations s)"
    by (simp add: findAnimationWithName_def find_if_end)
  then show ?thesis
    by (simp add: takeAnimation_name_def qWarning_def animationCount_def)
qed

theorem takeAnimation_name_absent_witness:
  "name (heap one_animation 1) = ''Animation 1'' \<and>
   takeAnimation_name ''Walk'' one_animation =
     Inr (one_animation\<lparr>warnings := [DoesNotExist ''Walk'']\<rparr>)"
  using takeAnimation_name_absent [of one_animation "''Walk''"]
  by (simp add: one_animation_def generate_def)

text \<open>
  Where the name is found and the collection has at least two animations, with the
  current index at most \<open>size - 1\<close>: the removal returns; a current index at or after
  the position removed is decremented, except the index 0, which stays (the setter
  refuses \<open>-1\<close>); a current index before the position removed is unchanged.
\<close>

lemma takeAnimation_name_current_index:
  assumes found: "findAnimationWithName nm s < length (mAnimations s)"
    and many: "length (mAnimations s) \<noteq> 1"
    and range: "mCurrentAnimationIndex s < int (length (mAnimations s))"
  shows "\<exists>s'. takeAnimation_name nm s = Inr s' \<and>
           mAnimations s' = QVector_erase (findAnimationWithName nm s) (mAnimations s) \<and>
           mCurrentAnimationIndex s' =
             (if int (findAnimationWithName nm s) \<le> mCurrentAnimationIndex s
                 \<and> mCurrentAnimationIndex s \<noteq> 0
              then mCurrentAnimationIndex s - 1
              else mCurrentAnimationIndex s)"
proof -
  define r where "r = findAnimationWithName nm s"
  define s1 where "s1 = emit (preAnimationRemoved (int r)) s"
  have s1: "mAnimations s1 = mAnimations s" "mCurrentAnimationIndex s1 = mCurrentAnimationIndex s"
    by (simp_all add: s1_def emit_def)
  have unfold: "takeAnimation_name nm s =
      (case (if int r \<le> mCurrentAnimationIndex s1
             then setCurrentAnimationIndex (mCurrentAnimationIndex s1 - 1) s1
             else Inr s1) of
         Inl e \<Rightarrow> Inl e
       | Inr s3 \<Rightarrow>
           Inr (emit animationCountChanged
                 (emit (postAnimationRemoved (int r))
                   (s3\<lparr>mAnimations := QVector_erase r (mAnimations s3)\<rparr>))))"
    using found many
    by (simp add: takeAnimation_name_def Let_def r_def [symmetric] s1_def [symmetric] s1)
  show ?thesis
  proof (cases "int r \<le> mCurrentAnimationIndex s")
    case False
    then show ?thesis
      by (simp add: unfold s1 emit_def r_def [symmetric])
  next
    case True
    show ?thesis
    proof (cases "mCurrentAnimationIndex s = 0")
      case zero: True
      then have "setCurrentAnimationIndex (mCurrentAnimationIndex s1 - 1) s1 =
          Inr (qWarning (InvalidIndex (mCurrentAnimationIndex s1 - 1)) s1)"
        by (intro setCurrentAnimationIndex_invalid) (simp add: s1)
      with True zero show ?thesis
        by (simp add: unfold s1 emit_def qWarning_def r_def [symmetric])
    next
      case nonzero: False
      with True have pos: "0 < mCurrentAnimationIndex s" by simp
      then have "setCurrentAnimationIndex (mCurrentAnimationIndex s1 - 1) s1 =
          Inr (emit currentAnimationIndexChanged
                (s1\<lparr>mCurrentAnimationIndex := mCurrentAnimationIndex s1 - 1,
                    mCurrentAnimationPlayback :=
                      setAnimation (Some (mAnimations s1 ! nat (mCurrentAnimationIndex s1 - 1)))
                        (mCurrentAnimationPlayback s1)\<rparr>))"
        using range by (intro setCurrentAnimationIndex_select) (simp_all add: s1)
      with True nonzero show ?thesis
        by (simp add: unfold s1 emit_def r_def [symmetric])
    qed
  qed
qed

text \<open>
  Claim C2 at the sole element. After one \<open>addNewAnimation\<close> the collection holds
  \<open>Animation 1\<close> at index 0, which is current. \<open>takeAnimation("Animation 1")\<close> calls
  \<open>setCurrentAnimationIndex(-1)\<close> twice (lines 162-166), and the setter refuses both
  calls with a warning: the sequence becomes empty and the current index stays 0.
  \<open>currentAnimation()\<close> then reads the empty vector at index 0 instead of returning
  null.
\<close>

theorem takeAnimation_name_sole_element:
  "map_sum id snapshot
     (calls [AddNewAnimation canvas, TakeAnimationNamed ''Animation 1'']
        AnimationSystem_init) = Inr ([], 0, Some 1) \<and>
   map_sum id warnings
     (calls [AddNewAnimation canvas, TakeAnimationNamed ''Animation 1'']
        AnimationSystem_init) = Inr [InvalidIndex (- 1), InvalidIndex (- 1)] \<and>
   calls [AddNewAnimation canvas, TakeAnimationNamed ''Animation 1'', CurrentAnimation]
     AnimationSystem_init = Inl IndexOutOfRange"
  by (simp add: run_defs)

subsection \<open>Detachment by index and the range of the current index\<close>

lemma takeAnimation_index_in_range:
  assumes "0 \<le> index" and "index < int (length (mAnimations s))"
  shows "\<exists>s'. takeAnimation_index index s = Inr (Some (mAnimations s ! nat index), s') \<and>
           mAnimations s' = QVector_erase (nat index) (mAnimations s) \<and>
           mCurrentAnimationIndex s' = mCurrentAnimationIndex s \<and>
           mCurrentAnimationPlayback s' = mCurrentAnimationPlayback s \<and>
           emitted s' = emitted s @
             [preAnimationRemoved index, postAnimationRemoved index, animationCountChanged]"
  using assms
  by (simp add: takeAnimation_index_def isValidIndexOrWarn_def QVector_at_def emit_def
      modify_def Let_def)

text \<open>
  Claim C1 fails on the code. After one \<open>addNewAnimation\<close> the current index is 0;
  \<open>takeAnimation(0)\<close> detaches the only animation and leaves the index alone: the
  sequence is empty, so the range \<open>[-1, size - 1]\<close> is \<open>{-1}\<close>, and the current index
  is 0.
\<close>

theorem takeAnimation_index_leaves_current_index:
  "map_sum id snapshot
     (calls [AddNewAnimation canvas, TakeAnimationAt 0] AnimationSystem_init) =
   Inr ([], 0, Some 1) \<and>
   calls [AddNewAnimation canvas, TakeAnimationAt 0, CurrentAnimation] AnimationSystem_init =
   Inl IndexOutOfRange"
  by (simp add: run_defs)

subsection \<open>Signals of addNewAnimation\<close>

text \<open>
  On a collection that is not empty and has no animation of the generated name,
  \<open>addNewAnimation\<close> appends the new object and emits \<open>preAnimationAdded\<close> and
  \<open>postAnimationAdded\<close> with the size before the call minus one, and nothing else.
\<close>

lemma addNewAnimation_nonempty:
  assumes "\<forall>a \<in> set (mAnimations s). name (heap s a) \<noteq> peekNextGeneratedName s"
    and "mAnimations s \<noteq> []"
  shows "\<exists>s'. addNewAnimation c s = Inr (peekNextGeneratedName s, s') \<and>
           mAnimations s' = mAnimations s @ [nextFree s] \<and>
           mCurrentAnimationIndex s' = mCurrentAnimationIndex s \<and>
           emitted s' = emitted s @
             [preAnimationAdded (int (length (mAnimations s)) - 1),
              postAnimationAdded (int (length (mAnimations s)) - 1)]"
proof -
  from assms(1)
  have "findAnimationWithName (peekNextGeneratedName s) s = length (mAnimations s)"
    by (simp add: findAnimationWithName_def find_if_end)
  with assms(2) show ?thesis
    by (simp add: addNewAnimation_def Let_def new_Animation_def modify_def emit_def)
qed

text \<open>
  Claim C3 fails on the code for \<open>addNewAnimation\<close>. On a new object the call appends
  an animation, so the count goes from 0 to 1, and the signals emitted are
  \<open>preAnimationAdded(-1)\<close>, \<open>currentAnimationIndexChanged\<close> and
  \<open>postAnimationAdded(-1)\<close>: no \<open>animationCountChanged\<close> follows, which
  \<open>addAnimation\<close> and both \<open>takeAnimation\<close> emit.
\<close>

theorem addNewAnimation_no_count_changed:
  "animationCount AnimationSystem_init = 0 \<and>
   map_sum id animationCount (calls [AddNewAnimation canvas] AnimationSystem_init) = Inr 1 \<and>
   map_sum id emitted (calls [AddNewAnimation canvas] AnimationSystem_init) =
     Inr [preAnimationAdded (- 1), currentAnimationIndexChanged, postAnimationAdded (- 1)]"
  by (simp add: run_defs)

text \<open>
  Claim C4 fails on the code. The second \<open>addNewAnimation\<close> on a new object finds one
  animation; the new animation (address 2) takes position 1, the size before the call,
  and both signals carry 0, the size before the call minus one (line 95).
\<close>

theorem addNewAnimation_index_off_by_one:
  "map_sum id mAnimations (calls [AddNewAnimation canvas] AnimationSystem_init) = Inr [1] \<and>
   map_sum id mAnimations
     (calls [AddNewAnimation canvas, AddNewAnimation canvas] AnimationSystem_init) =
     Inr [1, 2] \<and>
   map_sum id emitted
     (calls [AddNewAnimation canvas, AddNewAnimation canvas] AnimationSystem_init) =
     Inr [preAnimationAdded (- 1), currentAnimationIndexChanged, postAnimationAdded (- 1),
          preAnimationAdded 0, postAnimationAdded 0]"
  by (simp add: run_defs)

subsection \<open>The accessor by index\<close>

lemma animationAt_in_range:
  "0 \<le> index \<Longrightarrow> index < int (length (mAnimations s)) \<Longrightarrow>
   animationAt index s = Inr (Some (mAnimations s ! nat index), s)"
  by (simp add: animationAt_def isValidIndexOrWarn_def QVector_at_def)

lemma animationAt_invalid:
  "index < 0 \<or> index > int (length (mAnimations s)) \<Longrightarrow>
   animationAt index s = Inr (None, qWarning (InvalidIndex index) s)"
  by (simp add: animationAt_def isValidIndexOrWarn_def)

lemma animationAt_end:
  "animationAt (int (length (mAnimations s))) s = Inl IndexOutOfRange"
  by (simp add: animationAt_def isValidIndexOrWarn_def QVector_at_def)

text \<open>
  Claim C8 fails on the code at the index equal to the size. On a new object the
  sequence is empty, the range \<open>[0, size - 1]\<close> is empty and 0 is outside it;
  \<open>animationAt(0)\<close> passes \<open>isValidIndexOrWarn\<close>, which refuses only an index greater
  than the size, and reads the empty vector at 0. No warning is logged and no null is
  returned.
\<close>

theorem animationAt_size_out_of_bounds:
  "mAnimations AnimationSystem_init = [] \<and>
   isValidIndexOrWarn 0 AnimationSystem_init = (True, AnimationSystem_init) \<and>
   animationAt 0 AnimationSystem_init = Inl IndexOutOfRange"
  by (simp add: run_defs)

subsection \<open>Reset\<close>

lemma reset_fields:
  "mAnimations (reset s) = [] \<and>
   mCurrentAnimationPlayback (reset s) = AnimationPlayback_init \<and>
   mAnimationsCreated (reset s) = 0 \<and>
   mCurrentAnimationIndex (reset s) = mCurrentAnimationIndex s"
  by (simp add: reset_def AnimationPlayback_reset_def)

text \<open>
  Claim C9 fails on the code. \<open>reset()\<close> clears the sequence, resets the playback and
  the counter, and does not assign \<open>mCurrentAnimationIndex\<close>. After one
  \<open>addNewAnimation\<close> and \<open>reset()\<close> the current index is still 0, not \<open>-1\<close>, and
  \<open>currentAnimation()\<close> reads the empty vector at index 0.
\<close>

theorem reset_keeps_current_index:
  "map_sum id snapshot (calls [AddNewAnimation canvas, Reset] AnimationSystem_init) =
     Inr ([], 0, None) \<and>
   map_sum id mAnimationsCreated (calls [AddNewAnimation canvas, Reset] AnimationSystem_init) =
     Inr 0 \<and>
   calls [AddNewAnimation canvas, Reset, CurrentAnimation] AnimationSystem_init =
     Inl IndexOutOfRange"
  by (simp add: run_defs)

end
